theory Spec2Isabelle
  imports Complex_Main "HOL-Library.Word"
begin

section \<open>Python values used by the emotion detector\<close>

text \<open>
  Exceptions of the source are values. An external collaborator (the device query, the
  face detector, OpenCV, torch) that raises hands back one of them.
\<close>

datatype error =
    FileNotFoundError "string list"
  | CalledProcessError
  | ValueError
  | IndexError
  | KeyError
  | CvError
  | RuntimeError
  | UnpicklingError

text \<open>
  A device handle: \<open>torch.device("cpu")\<close>, or \<open>torch.device("cuda:i")\<close> for the
  index \<open>i\<close> that the device query printed.
\<close>

datatype device = Cpu | Cuda int

subsection \<open>The string operations of \<open>_get_gpu_memory_usage\<close>\<close>

text \<open>
  \<open>str.strip()\<close>, \<open>str.split(sep)\<close> and \<open>int(str)\<close> on ASCII text, which is what
  the device query prints. \<open>split\<close> is only called with the literal separators
  \<open>"\n"\<close> and \<open>", "\<close>, both non-empty.
\<close>

definition isspace :: "char \<Rightarrow> bool" where
  "isspace c = (c \<in> set [CHR '' '', CHR 0x09, CHR 0x0A, CHR 0x0B, CHR 0x0C, CHR 0x0D,
                           CHR 0x1C, CHR 0x1D, CHR 0x1E, CHR 0x1F])"

definition strip :: "string \<Rightarrow> string" where
  "strip s = rev (dropWhile isspace (rev (dropWhile isspace s)))"

fun split_sep :: "string \<Rightarrow> string \<Rightarrow> string \<Rightarrow> string list" where
  "split_sep sep acc [] = [rev acc]"
| "split_sep sep acc (c # cs) =
     (if sep \<noteq> [] \<and> take (length sep) (c # cs) = sep
      then rev acc # split_sep sep [] (drop (length sep - 1) cs)
      else split_sep sep (c # acc) cs)"

definition split :: "string \<Rightarrow> string \<Rightarrow> string list" where
  "split s sep = split_sep sep [] s"

definition isdigit :: "char \<Rightarrow> bool" where
  "isdigit c = (48 \<le> (of_char c :: nat) \<and> (of_char c :: nat) \<le> 57)"

fun digits_ok :: "string \<Rightarrow> bool" where
  "digits_ok [] = False"
| "digits_ok [c] = isdigit c"
| "digits_ok (c # d # cs) =
     (isdigit c \<and> (if d = CHR ''_'' then digits_ok cs else digits_ok (d # cs)))"

definition digits_value :: "string \<Rightarrow> int" where
  "digits_value s =
     foldl (\<lambda>a c. 10 * a + (int (of_char c) - 48)) 0 (filter (\<lambda>c. c \<noteq> CHR ''_'') s)"

definition py_int :: "string \<Rightarrow> error + int" where
  "py_int s =
     (let t = strip s;
          neg = (t \<noteq> [] \<and> hd t = CHR ''-'');
          body = (if t \<noteq> [] \<and> (hd t = CHR ''-'' \<or> hd t = CHR ''+'') then tl t else t)
      in if digits_ok body
         then Inr (if neg then - digits_value body else digits_value body)
         else Inl ValueError)"

section \<open>Device selection\<close>

text \<open>One entry of \<open>gpu_info\<close>: the dict with keys index, used, total and free.\<close>

record gpu =
  gpu_index :: int
  gpu_used :: int
  gpu_total :: int
  gpu_free :: int

text \<open>
  The loop of \<open>_get_gpu_memory_usage\<close> over the lines of the query's output. A line
  that does not split into three parts is skipped; a part that \<open>int\<close> rejects raises.
\<close>

fun parse_lines :: "string list \<Rightarrow> gpu list \<Rightarrow> error + gpu list" where
  "parse_lines [] gpu_info = Inr gpu_info"
| "parse_lines (line # rest) gpu_info =
     (let parts = split line '', '' in
      if length parts = 3 then
        (case py_int (parts ! 0) of
           Inl e \<Rightarrow> Inl e
         | Inr i \<Rightarrow>
             (case py_int (parts ! 1) of
                Inl e \<Rightarrow> Inl e
              | Inr u \<Rightarrow>
                  (case py_int (parts ! 2) of
                     Inl e \<Rightarrow> Inl e
                   | Inr t \<Rightarrow>
                       parse_lines rest
                         (gpu_info @ [\<lparr>gpu_index = i, gpu_used = u, gpu_total = t,
                                       gpu_free = t - u\<rparr>]))))
      else parse_lines rest gpu_info)"

text \<open>
  \<open>_get_gpu_memory_usage\<close>. The argument is the outcome of \<open>subprocess.run\<close> on
  nvidia-smi: its standard output, or the exception it raised (\<open>check=True\<close>). The
  \<open>try\<close> block catches every exception and answers the empty list.
\<close>

definition get_gpu_memory_usage_body :: "error + string \<Rightarrow> error + gpu list" where
  "get_gpu_memory_usage_body run =
     (case run of
        Inl e \<Rightarrow> Inl e
      | Inr stdout \<Rightarrow> parse_lines (split (strip stdout) [CHR 0x0A]) [])"

definition get_gpu_memory_usage :: "error + string \<Rightarrow> gpu list" where
  "get_gpu_memory_usage run =
     (case get_gpu_memory_usage_body run of Inl e \<Rightarrow> [] | Inr gpu_info \<Rightarrow> gpu_info)"

text \<open>
  \<open>_select_best_gpu\<close>. \<open>list.sort(key=free, reverse=True)\<close> is a stable sort by
  descending key: equal keys keep their order. That is the stable \<open>sort_key\<close> on the
  negated key.
\<close>

definition select_best_gpu :: "error + string \<Rightarrow> device" where
  "select_best_gpu run =
     (let gpu_info = get_gpu_memory_usage run in
      if gpu_info = [] then Cpu
      else
        (let sorted_info = sort_key (\<lambda>x. - gpu_free x) gpu_info;
             best_gpu = sorted_info ! 0
         in Cuda (gpu_index best_gpu)))"

section \<open>Images and tensors\<close>

text \<open>
  A numpy array of dtype uint8: its shape and its elements in row-major order. An array
  that numpy can build has \<open>length (data a) = prod_list (shape a)\<close>.
\<close>

record ndarray =
  shape :: "nat list"
  data :: "8 word list"

definition nd_size :: "ndarray \<Rightarrow> nat" where
  "nd_size a = prod_list (shape a)"

text \<open>
  A torch tensor of dtype float32. A float is read as the real number it denotes (NaN is
  not modelled). Operations that only compare or select floats (\<open>clamp\<close>, \<open>argmax\<close>)
  are written out; operations that round (the division by 255, \<open>softmax\<close>) are
  collaborators.
\<close>

record tensor =
  tshape :: "nat list"
  tdata :: "real list"
  tdevice :: device

subsection \<open>OpenCV colour conversion, as the source calls it\<close>

text \<open>
  \<open>cv2.cvtColor\<close> rejects an empty array and an array with the wrong number of
  channels. \<open>COLOR_GRAY2RGB\<close> copies the single channel into three;
  \<open>COLOR_RGB2BGR\<close> takes three or four channels and answers three, the first and the
  third exchanged.
\<close>

datatype color_code = COLOR_GRAY2RGB | COLOR_RGB2BGR

definition gray2rgb :: "ndarray \<Rightarrow> ndarray" where
  "gray2rgb a =
     \<lparr>shape = take 2 (shape a) @ [3], data = concat (map (\<lambda>p. [p, p, p]) (data a))\<rparr>"

definition rgb2bgr :: "ndarray \<Rightarrow> ndarray" where
  "rgb2bgr a =
     (let c = shape a ! 2 in
      \<lparr>shape = take 2 (shape a) @ [3],
       data = concat (map (\<lambda>k. [data a ! (k * c + 2), data a ! (k * c + 1), data a ! (k * c)])
                       [0..<shape a ! 0 * shape a ! 1])\<rparr>)"

definition cvtColor :: "ndarray \<Rightarrow> color_code \<Rightarrow> error + ndarray" where
  "cvtColor src code =
     (if nd_size src = 0 then Inl CvError
      else
        (case code of
           COLOR_GRAY2RGB \<Rightarrow>
             if length (shape src) = 2 \<or> (length (shape src) = 3 \<and> shape src ! 2 = 1)
             then Inr (gray2rgb src) else Inl CvError
         | COLOR_RGB2BGR \<Rightarrow>
             if length (shape src) = 3 \<and> (shape src ! 2 = 3 \<or> shape src ! 2 = 4)
             then Inr (rgb2bgr src) else Inl CvError))"

subsection \<open>numpy slicing\<close>

text \<open>
  The bound of a slice on an axis of length \<open>n\<close>: a negative bound counts from the end,
  and every bound is cut to \<open>0..n\<close>.
\<close>

definition slice_index :: "nat \<Rightarrow> int \<Rightarrow> nat" where
  "slice_index n i = (if i < 0 then nat (max 0 (i + int n)) else nat (min i (int n)))"

text \<open>\<open>image[r0:r1, c0:c1, :]\<close>; fewer than three axes raise IndexError.\<close>

definition crop :: "ndarray \<Rightarrow> int \<Rightarrow> int \<Rightarrow> int \<Rightarrow> int \<Rightarrow> error + ndarray" where
  "crop img r0 r1 c0 c1 =
     (if length (shape img) < 3 then Inl IndexError
      else
        (let w = shape img ! 1;
             rest = drop 2 (shape img);
             c = prod_list rest;
             rlo = slice_index (shape img ! 0) r0;
             rhi = slice_index (shape img ! 0) r1;
             clo = slice_index w c0;
             chi = slice_index w c1
         in Inr \<lparr>shape = [rhi - rlo, chi - clo] @ rest,
                 data = concat (map (\<lambda>r. take ((chi - clo) * c)
                                            (drop ((r * w + clo) * c) (data img)))
                                  [rlo..<rhi])\<rparr>))"

text \<open>\<open>image[:, :, :3]\<close> on an array with at least three axes.\<close>

definition first3 :: "ndarray \<Rightarrow> ndarray" where
  "first3 img =
     (let n = shape img ! 2;
          inner = prod_list (drop 3 (shape img));
          k = min 3 n
      in \<lparr>shape = take 2 (shape img) @ [k] @ drop 3 (shape img),
          data = concat (map (\<lambda>p. take (k * inner) (drop (p * n * inner) (data img)))
                           [0..<shape img ! 0 * shape img ! 1])\<rparr>)"

section \<open>The detector and its collaborators\<close>

text \<open>
  What the model answers for the one image of the batch: the row of class logits, the
  valence and the arousal.
\<close>

record model_output =
  expression :: "real list"
  valence :: real
  arousal :: real

text \<open>
  The fields of an \<open>EmotionDetector\<close>. The model and the face detector are opaque
  collaborators; either may raise. A detected face is given as
  \<open>np.array(face).astype(np.int32)\<close> reads it: a list of integers, the first four
  being x1, y1, x2, y2.
\<close>

record detector =
  n_classes :: int
  image_size :: int
  device :: device
  model :: "tensor \<Rightarrow> error + model_output"
  face_detector :: "ndarray \<Rightarrow> error + int list list"

text \<open>
  The library functions whose arithmetic is not modelled: \<open>cv2.resize\<close> to a given
  size, the float32 quotient of an element by 255.0, and \<open>nn.functional.softmax\<close> on
  the row of logits.
\<close>

record externals =
  cv2_resize :: "ndarray \<Rightarrow> int \<times> int \<Rightarrow> error + ndarray"
  div255 :: "8 word \<Rightarrow> real"
  softmax :: "real list \<Rightarrow> real list"

section \<open>Preprocessing\<close>

text \<open>
  \<open>torch.from_numpy(image).float().permute(2, 0, 1) / 255.0\<close>: the channel axis moves to
  the front, every element is divided by 255. \<open>permute\<close> with three axes raises on an
  array of any other rank.
\<close>

definition permute_scale :: "externals \<Rightarrow> ndarray \<Rightarrow> error + tensor" where
  "permute_scale ext a =
     (if length (shape a) \<noteq> 3 then Inl RuntimeError
      else
        (let h = shape a ! 0; w = shape a ! 1; c = shape a ! 2 in
         Inr \<lparr>tshape = [c, h, w],
              tdata = concat (map (\<lambda>ch. concat (map (\<lambda>y.
                         map (\<lambda>x. div255 ext (data a ! ((y * w + x) * c + ch))) [0..<w])
                         [0..<h])) [0..<c]),
              tdevice = Cpu\<rparr>))"

text \<open>\<open>image_tensor.unsqueeze(0).to(self.device)\<close>\<close>

definition unsqueeze_to :: "tensor \<Rightarrow> device \<Rightarrow> tensor" where
  "unsqueeze_to t d = t\<lparr>tshape := 1 # tshape t, tdevice := d\<rparr>"

definition preprocess_image :: "externals \<Rightarrow> detector \<Rightarrow> ndarray \<Rightarrow> error + tensor" where
  "preprocess_image ext self img =
     (case (if length (shape img) = 2 then cvtColor img COLOR_GRAY2RGB
            else if length (shape img) < 3 then Inl IndexError
            else if shape img ! 2 = 4 then Inr (first3 img)
            else Inr img) of
        Inl e \<Rightarrow> Inl e
      | Inr rgb \<Rightarrow>
          (case cv2_resize ext rgb (image_size self, image_size self) of
             Inl e \<Rightarrow> Inl e
           | Inr resized \<Rightarrow>
               (case permute_scale ext resized of
                  Inl e \<Rightarrow> Inl e
                | Inr image_tensor \<Rightarrow> Inr (unsqueeze_to image_tensor (device self)))))"

section \<open>Prediction\<close>

text \<open>The values that occur in the dict \<open>predict\<close> returns.\<close>

datatype pyval =
    PNone
  | PBool bool
  | PInt int
  | PFloat real
  | PStr string
  | PIntList "int list"
  | PFloatDict "(string \<times> real) list"

type_synonym pydict = "(string \<times> pyval) list"

definition emotion_classes :: "nat \<rightharpoonup> string" where
  "emotion_classes =
     map_of [(0, ''Neutral''), (1, ''Happy''), (2, ''Sad''), (3, ''Surprise''),
             (4, ''Fear''), (5, ''Disgust''), (6, ''Anger''), (7, ''Contempt'')]"

text \<open>
  \<open>torch.argmax\<close> of the row: the position of the first greatest element; it raises on
  an empty tensor.
\<close>

fun argmax_from :: "nat \<Rightarrow> real \<Rightarrow> nat \<Rightarrow> real list \<Rightarrow> nat" where
  "argmax_from best bv i [] = best"
| "argmax_from best bv i (x # xs) =
     (if bv < x then argmax_from i x (Suc i) xs else argmax_from best bv (Suc i) xs)"

definition argmax :: "real list \<Rightarrow> error + nat" where
  "argmax xs = (case xs of [] \<Rightarrow> Inl RuntimeError | x # rest \<Rightarrow> Inr (argmax_from 0 x 1 rest))"

text \<open>\<open>tensor.clamp(lo, hi)\<close>\<close>

definition clamp :: "real \<Rightarrow> real \<Rightarrow> real \<Rightarrow> real" where
  "clamp lo hi x = min (max x lo) hi"

text \<open>
  The dict comprehension over \<open>range(self.n_classes)\<close>: a class index without a label
  raises KeyError, an index past the row raises IndexError. The labels of the table are
  distinct, so the pairs in order are the dict.
\<close>

fun emotion_probs_dict :: "real list \<Rightarrow> nat list \<Rightarrow> error + (string \<times> real) list" where
  "emotion_probs_dict emotion_probs [] = Inr []"
| "emotion_probs_dict emotion_probs (i # rest) =
     (case emotion_classes i of
        None \<Rightarrow> Inl KeyError
      | Some label \<Rightarrow>
          if i < length emotion_probs then
            (case emotion_probs_dict emotion_probs rest of
               Inl e \<Rightarrow> Inl e
             | Inr d \<Rightarrow> Inr ((label, emotion_probs ! i) # d))
          else Inl IndexError)"

definition no_face_result :: pydict where
  "no_face_result =
     [(''emotion'', PNone), (''emotion_class'', PNone), (''valence'', PNone),
      (''arousal'', PNone), (''emotion_probabilities'', PNone),
      (''face_detected'', PBool False), (''message'', PStr ''No face detected in image'')]"

definition invalid_crop_result :: pydict where
  "invalid_crop_result =
     [(''emotion'', PNone), (''emotion_class'', PNone), (''valence'', PNone),
      (''arousal'', PNone), (''emotion_probabilities'', PNone),
      (''face_detected'', PBool False), (''message'', PStr ''Invalid face crop'')]"

text \<open>Lines 199 to 202: the four assignments that bound the box by the image.\<close>

definition clamp_bbox :: "ndarray \<Rightarrow> int list \<Rightarrow> int list" where
  "clamp_bbox img bbox0 =
     (let bbox = bbox0[0 := max 0 (bbox0 ! 0)];
          bbox = bbox[1 := max 0 (bbox ! 1)];
          bbox = bbox[2 := min (int (shape img ! 1)) (bbox ! 2)];
          bbox = bbox[3 := min (int (shape img ! 0)) (bbox ! 3)]
      in bbox)"

text \<open>Line 205: the crop of the image by the bounded box.\<close>

definition face_crop_of :: "ndarray \<Rightarrow> int list \<Rightarrow> error + ndarray" where
  "face_crop_of img bbox = crop img (bbox ! 1) (bbox ! 3) (bbox ! 0) (bbox ! 2)"

text \<open>Lines 220 to 249: preprocessing, inference and the dict of a prediction.\<close>

definition infer :: "externals \<Rightarrow> detector \<Rightarrow> ndarray \<Rightarrow> int list \<Rightarrow> error + pydict" where
  "infer ext self face_crop bbox =
     (case preprocess_image ext self face_crop of
        Inl e \<Rightarrow> Inl e
      | Inr image_tensor \<Rightarrow>
          (case model self image_tensor of
             Inl e \<Rightarrow> Inl e
           | Inr output \<Rightarrow>
               (let emotion_probs = softmax ext (expression output) in
                case argmax emotion_probs of
                  Inl e \<Rightarrow> Inl e
                | Inr predicted_class \<Rightarrow>
                    (let v = clamp (- 1) 1 (valence output);
                         a = clamp (- 1) 1 (arousal output)
                     in case emotion_probs_dict emotion_probs [0..<nat (n_classes self)] of
                          Inl e \<Rightarrow> Inl e
                        | Inr probs \<Rightarrow>
                            (case emotion_classes predicted_class of
                               None \<Rightarrow> Inl KeyError
                             | Some label \<Rightarrow>
                                 Inr [(''emotion'', PStr label),
                                      (''emotion_class'', PInt (int predicted_class)),
                                      (''valence'', PFloat v),
                                      (''arousal'', PFloat a),
                                      (''emotion_probabilities'', PFloatDict probs),
                                      (''face_detected'', PBool True),
                                      (''face_bbox'', PIntList bbox)])))))"

text \<open>
  \<open>predict\<close>. Writing to \<open>bbox[0]\<close> .. \<open>bbox[3]\<close> raises IndexError on a box with
  fewer than four entries.
\<close>

definition predict :: "externals \<Rightarrow> detector \<Rightarrow> ndarray \<Rightarrow> error + pydict" where
  "predict ext self img =
     (case cvtColor img COLOR_RGB2BGR of
        Inl e \<Rightarrow> Inl e
      | Inr image_bgr \<Rightarrow>
          (case face_detector self image_bgr of
             Inl e \<Rightarrow> Inl e
           | Inr detected_faces \<Rightarrow>
               if length detected_faces = 0 then Inr no_face_result
               else if length (detected_faces ! 0) < 4 then Inl IndexError
               else
                 (let bbox = clamp_bbox img (detected_faces ! 0) in
                  case face_crop_of img bbox of
                    Inl e \<Rightarrow> Inl e
                  | Inr face_crop \<Rightarrow>
                      if nd_size face_crop = 0 then Inr invalid_crop_result
                      else infer ext self face_crop bbox)))"

section \<open>Model loading and start-up\<close>

text \<open>The decimal digits of an integer, as an f-string prints it.\<close>

fun str_nat :: "nat \<Rightarrow> string" where
  "str_nat n =
     (if n < 10 then [char_of (48 + n)] else str_nat (n div 10) @ [char_of (48 + n mod 10)])"

declare str_nat.simps [simp del]

definition str_int :: "int \<Rightarrow> string" where
  "str_int i = (if i < 0 then CHR ''-'' # str_nat (nat (- i)) else str_nat (nat i))"

text \<open>\<open>str.replace(old, new)\<close> for a non-empty \<open>old\<close>, here the literal \<open>"module."\<close>.\<close>

fun replace :: "string \<Rightarrow> string \<Rightarrow> string \<Rightarrow> string" where
  "replace old new [] = []"
| "replace old new (c # cs) =
     (if old \<noteq> [] \<and> take (length old) (c # cs) = old
      then new @ replace old new (drop (length old - 1) cs)
      else c # replace old new cs)"

text \<open>Storing a key in a dict: an existing key keeps its place, a new one goes last.\<close>

fun dict_set :: "'k \<Rightarrow> 'v \<Rightarrow> ('k \<times> 'v) list \<Rightarrow> ('k \<times> 'v) list" where
  "dict_set k v [] = [(k, v)]"
| "dict_set k v ((k', v') # d) =
     (if k = k' then (k, v) # d else (k', v') # dict_set k v d)"

definition strip_module :: "(string \<times> 'w) list \<Rightarrow> (string \<times> 'w) list" where
  "strip_module state_dict =
     foldl (\<lambda>d (k, v). dict_set (replace ''module.'' [] k) v d) [] state_dict"

text \<open>
  A path is the list of its components. \<open>Path(__file__).parents[1]\<close> drops the last two
  and raises IndexError on a path with fewer than two.
\<close>

definition state_dict_path :: "string list \<Rightarrow> int \<Rightarrow> error + string list" where
  "state_dict_path module_file n =
     (if length module_file < 2 then Inl IndexError
      else Inr (take (length module_file - 2) module_file
                  @ [''pretrained'', ''emonet_'' @ str_int n @ ''.pth'']))"

type_synonym net = "tensor \<Rightarrow> error + model_output"
type_synonym face_net = "ndarray \<Rightarrow> error + int list list"

text \<open>
  The file system and the constructors of torch, EmoNet and the SFD detector, all
  external; each may raise. A loaded model is taken as its forward function.
\<close>

record 'w loaders =
  path_exists :: "string list \<Rightarrow> bool"
  torch_load :: "string list \<Rightarrow> error + (string \<times> 'w) list"
  EmoNet :: "int \<Rightarrow> device \<Rightarrow> error + net"
  load_state_dict :: "net \<Rightarrow> (string \<times> 'w) list \<Rightarrow> error + net"
  eval_mode :: "net \<Rightarrow> net"
  SFDDetector :: "device \<Rightarrow> error + face_net"

text \<open>
  \<open>_load_model\<close>. Beside the model it answers whether \<open>cudnn.benchmark\<close> was switched
  on.
\<close>

definition load_model ::
  "'w loaders \<Rightarrow> string list \<Rightarrow> int \<Rightarrow> device \<Rightarrow> error + net \<times> bool" where
  "load_model t module_file n dev =
     (case state_dict_path module_file n of
        Inl e \<Rightarrow> Inl e
      | Inr p \<Rightarrow>
          if \<not> path_exists t p then Inl (FileNotFoundError p)
          else
            (case torch_load t p of
               Inl e \<Rightarrow> Inl e
             | Inr loaded \<Rightarrow>
                 (let state_dict = strip_module loaded in
                  case EmoNet t n dev of
                    Inl e \<Rightarrow> Inl e
                  | Inr m \<Rightarrow>
                      (case load_state_dict t m state_dict of
                         Inl e \<Rightarrow> Inl e
                       | Inr m' \<Rightarrow>
                           Inr (eval_mode t m',
                                (case dev of Cuda i \<Rightarrow> True | Cpu \<Rightarrow> False))))))"

text \<open>
  \<open>EmotionDetector.__init__\<close>: the device, then the model, then the face detector. An
  exception of any step leaves \<open>__init__\<close>, and the server's \<open>lifespan\<close> raises it again.
\<close>

definition init ::
  "'w loaders \<Rightarrow> error + string \<Rightarrow> string list \<Rightarrow> int \<Rightarrow> int \<Rightarrow> error + detector" where
  "init t run module_file n sz =
     (let dev = select_best_gpu run in
      case load_model t module_file n dev of
        Inl e \<Rightarrow> Inl e
      | Inr (m, benchmark) \<Rightarrow>
          (case SFDDetector t dev of
             Inl e \<Rightarrow> Inl e
           | Inr fd \<Rightarrow>
               Inr \<lparr>n_classes = n, image_size = sz, device = dev, model = m,
                    face_detector = fd\<rparr>))"

section \<open>Example inputs\<close>

text \<open>The device query's output for the two devices of the specification's example.\<close>

definition nvidia_smi_example :: string where
  "nvidia_smi_example = ''0, 1000, 2000'' @ [CHR 0x0A] @ ''1, 500, 2000'' @ [CHR 0x0A]"

text \<open>A 4 by 4 RGB image whose elements are 0, 1, .., 47.\<close>

definition example_image :: ndarray where
  "example_image = \<lparr>shape = [4, 4, 3], data = map of_nat [0..<48]\<rparr>"

text \<open>
  Collaborators to run the pipeline on: a nearest-neighbour resize, the exact quotient by
  255, the softmax of a row of equal logits (every class gets the same share), a model
  that answers equal logits with valence 1.5 and arousal -0.25, and a face detector that
  answers a given list.
\<close>

definition nearest_resize :: "ndarray \<Rightarrow> int \<times> int \<Rightarrow> error + ndarray" where
  "nearest_resize a sz =
     (if nd_size a = 0 \<or> fst sz \<le> 0 \<or> snd sz \<le> 0 \<or> length (shape a) \<noteq> 3
      then Inl CvError
      else
        (let h = shape a ! 0; w = shape a ! 1; c = shape a ! 2;
             tw = nat (fst sz); th = nat (snd sz)
         in Inr \<lparr>shape = [th, tw, c],
                 data = concat (map (\<lambda>y. concat (map (\<lambda>x.
                          take c (drop (((y * h div th) * w + x * w div tw) * c) (data a)))
                          [0..<tw])) [0..<th])\<rparr>))"

definition uniform_softmax :: "real list \<Rightarrow> real list" where
  "uniform_softmax xs = replicate (length xs) (1 / real (length xs))"

definition example_ext :: externals where
  "example_ext =
     \<lparr>cv2_resize = nearest_resize, div255 = (\<lambda>p. real (unat p) / 255),
      softmax = uniform_softmax\<rparr>"

definition example_net :: net where
  "example_net = (\<lambda>t. Inr \<lparr>expression = replicate 8 0, valence = 3 / 2, arousal = - 1 / 4\<rparr>)"

definition example_detector :: "int list list \<Rightarrow> detector" where
  "example_detector faces =
     \<lparr>n_classes = 8, image_size = 2, device = Cpu, model = example_net,
      face_detector = (\<lambda>img. Inr faces)\<rparr>"

text \<open>A grayscale and an RGBA array of one row.\<close>

definition example_gray :: ndarray where
  "example_gray = \<lparr>shape = [1, 2], data = [10, 20]\<rparr>"

definition example_rgba :: ndarray where
  "example_rgba = \<lparr>shape = [1, 1, 4], data = [10, 20, 30, 40]\<rparr>"

text \<open>
  A file system that has every file or none, and loaders of which \<open>torch.load\<close> answers
  a given outcome.
\<close>

definition example_module_file :: "string list" where
  "example_module_file = [''srv'', ''emonet'', ''src'', ''emotion_detector.py'']"

definition example_loaders :: "bool \<Rightarrow> error + (string \<times> nat) list \<Rightarrow> nat loaders" where
  "example_loaders present loaded =
     \<lparr>path_exists = (\<lambda>p. present), torch_load = (\<lambda>p. loaded),
      EmoNet = (\<lambda>n d. Inr example_net), load_state_dict = (\<lambda>m sd. Inr m),
      eval_mode = (\<lambda>m. m), SFDDetector = (\<lambda>d. Inr (\<lambda>img. Inr []))\<rparr>"

section \<open>Device selection: the device with the most free memory\<close>

lemma hd_insort_key:
  "hd (insort_key f x ys) = (if ys = [] \<or> f x \<le> f (hd ys) then x else hd ys)"
  by (cases ys) auto

text \<open>The head of a stable sort is the first element whose key is least.\<close>

lemma hd_sort_key_first_least:
  "xs \<noteq> [] \<Longrightarrow>
   \<exists>i<length xs. hd (sort_key f xs) = xs ! i
      \<and> (\<forall>j<length xs. f (xs ! i) \<le> f (xs ! j))
      \<and> (\<forall>j<i. f (xs ! i) < f (xs ! j))"
proof (induction xs)
  case Nil
  then show ?case by simp
next
  case (Cons x xs)
  show ?case
  proof (cases "xs = []")
    case True
    then show ?thesis by simp
  next
    case False
    with Cons.IH obtain i where i: "i < length xs" "hd (sort_key f xs) = xs ! i"
      "\<forall>j<length xs. f (xs ! i) \<le> f (xs ! j)" "\<forall>j<i. f (xs ! i) < f (xs ! j)"
      by blast
    have ne: "sort_key f xs \<noteq> []"
      using False by (metis length_sort length_0_conv)
    show ?thesis
    proof (cases "f x \<le> f (xs ! i)")
      case True
      have "hd (sort_key f (x # xs)) = x"
        using True i(2) ne by (simp add: hd_insort_key)
      moreover have "\<forall>j<length (x # xs). f x \<le> f ((x # xs) ! j)"
        using True i(3) by (auto simp: nth_Cons split: nat.splits intro: order_trans)
      ultimately show ?thesis
        by (intro exI [of _ 0]) simp
    next
      case False
      have "hd (sort_key f (x # xs)) = xs ! i"
        using False i(2) ne by (simp add: hd_insort_key)
      moreover have "\<forall>j<length (x # xs). f (xs ! i) \<le> f ((x # xs) ! j)"
        using False i(3) by (auto simp: nth_Cons split: nat.splits)
      moreover have "\<forall>j<Suc i. f (xs ! i) < f ((x # xs) ! j)"
        using False i(4) by (auto simp: nth_Cons split: nat.splits)
      ultimately show ?thesis
        using i(1) by (intro exI [of _ "Suc i"]) simp
    qed
  qed
qed

lemma parse_lines_free:
  "parse_lines ls acc = Inr gs \<Longrightarrow> \<forall>g\<in>set acc. gpu_free g = gpu_total g - gpu_used g \<Longrightarrow>
   \<forall>g\<in>set gs. gpu_free g = gpu_total g - gpu_used g"
proof (induction ls arbitrary: acc)
  case Nil
  then show ?case by simp
next
  case (Cons l ls)
  show ?case
  proof (cases "length (split l '', '') = 3")
    case False
    with Cons.prems have "parse_lines ls acc = Inr gs" by (simp add: Let_def)
    from Cons.IH [OF this Cons.prems(2)] show ?thesis .
  next
    case True
    with Cons.prems(1) obtain i u t where
      "parse_lines ls (acc @ [\<lparr>gpu_index = i, gpu_used = u, gpu_total = t, gpu_free = t - u\<rparr>])
         = Inr gs"
      by (auto simp: Let_def split: sum.splits)
    from Cons.IH [OF this] Cons.prems(2) show ?thesis by simp
  qed
qed

lemma get_gpu_memory_usage_free:
  "\<forall>g\<in>set (get_gpu_memory_usage run). gpu_free g = gpu_total g - gpu_used g"
proof (cases "get_gpu_memory_usage_body run")
  case (Inl e)
  then show ?thesis by (simp add: get_gpu_memory_usage_def)
next
  case (Inr gs)
  then obtain out where "parse_lines (split (strip out) [CHR 0x0A]) [] = Inr gs"
    by (auto simp: get_gpu_memory_usage_body_def split: sum.splits)
  from parse_lines_free [OF this] Inr show ?thesis
    by (simp add: get_gpu_memory_usage_def)
qed

lemma select_best_gpu_position:
  assumes "get_gpu_memory_usage run = gs" and "gs \<noteq> []"
  shows "\<exists>i<length gs. select_best_gpu run = Cuda (gpu_index (gs ! i))
           \<and> (\<forall>j<length gs. gpu_free (gs ! j) \<le> gpu_free (gs ! i))
           \<and> (\<forall>j<i. gpu_free (gs ! j) < gpu_free (gs ! i))"
proof -
  from hd_sort_key_first_least [OF assms(2), of "\<lambda>x. - gpu_free x"]
  obtain i where i: "i < length gs" "hd (sort_key (\<lambda>x. - gpu_free x) gs) = gs ! i"
    "\<forall>j<length gs. gpu_free (gs ! j) \<le> gpu_free (gs ! i)"
    "\<forall>j<i. gpu_free (gs ! j) < gpu_free (gs ! i)"
    by auto
  have "sort_key (\<lambda>x. - gpu_free x) gs \<noteq> []"
    using assms(2) by (metis length_sort length_0_conv)
  then have "sort_key (\<lambda>x. - gpu_free x) gs ! 0 = gs ! i"
    using i(2) by (simp add: hd_conv_nth)
  then have "select_best_gpu run = Cuda (gpu_index (gs ! i))"
    using assms by (simp add: select_best_gpu_def Let_def)
  with i show ?thesis by blast
qed

text \<open>
  C3. Whenever the device query answers a non-empty list, \<open>_select_best_gpu\<close> picks a
  device of that list whose free memory (total minus used) is greatest, and among the
  devices with that much free memory the one that comes first in the list; when the list
  is in ascending order of index, as the query enumerates it, that is the one of lowest
  index. For the list of device 0 with 1000 of 2000 used and device 1 with 500 of 2000
  used, it picks device 1.
\<close>

theorem select_best_gpu_most_free:
  "(\<forall>run gs. get_gpu_memory_usage run = gs \<and> gs \<noteq> [] \<longrightarrow>
      (\<exists>i<length gs.
          select_best_gpu run = Cuda (gpu_index (gs ! i))
        \<and> (\<forall>g\<in>set gs. gpu_free g = gpu_total g - gpu_used g)
        \<and> (\<forall>j<length gs. gpu_free (gs ! j) \<le> gpu_free (gs ! i))
        \<and> (\<forall>j<i. gpu_free (gs ! j) < gpu_free (gs ! i))
        \<and> (sorted_wrt (<) (map gpu_index gs) \<longrightarrow>
             (\<forall>j<length gs. gpu_free (gs ! j) = gpu_free (gs ! i)
                \<longrightarrow> gpu_index (gs ! i) \<le> gpu_index (gs ! j)))))
   \<and> get_gpu_memory_usage (Inr nvidia_smi_example) =
       [\<lparr>gpu_index = 0, gpu_used = 1000, gpu_total = 2000, gpu_free = 1000\<rparr>,
        \<lparr>gpu_index = 1, gpu_used = 500, gpu_total = 2000, gpu_free = 1500\<rparr>]
   \<and> select_best_gpu (Inr nvidia_smi_example) = Cuda 1"
proof (intro conjI allI impI)
  fix run gs
  assume a: "get_gpu_memory_usage run = gs \<and> gs \<noteq> []"
  from select_best_gpu_position [of run gs] a
  obtain i where i: "i < length gs" "select_best_gpu run = Cuda (gpu_index (gs ! i))"
    "\<forall>j<length gs. gpu_free (gs ! j) \<le> gpu_free (gs ! i)"
    "\<forall>j<i. gpu_free (gs ! j) < gpu_free (gs ! i)"
    by blast
  have free: "\<forall>g\<in>set gs. gpu_free g = gpu_total g - gpu_used g"
    using get_gpu_memory_usage_free [of run] a by simp
  have low: "gpu_index (gs ! i) \<le> gpu_index (gs ! j)"
    if s: "sorted_wrt (<) (map gpu_index gs)" and j: "j < length gs"
      and eq: "gpu_free (gs ! j) = gpu_free (gs ! i)" for j
  proof (cases "i < j")
    case True
    from s have "sorted_wrt (\<lambda>x y. gpu_index x < gpu_index y) gs"
      by (simp add: sorted_wrt_map)
    from sorted_wrt_nth_less [OF this True j] show ?thesis by simp
  next
    case False
    have "\<not> j < i" using i(4) eq by auto
    with False have "j = i" by simp
    then show ?thesis by simp
  qed
  show "\<exists>i<length gs.
          select_best_gpu run = Cuda (gpu_index (gs ! i))
        \<and> (\<forall>g\<in>set gs. gpu_free g = gpu_total g - gpu_used g)
        \<and> (\<forall>j<length gs. gpu_free (gs ! j) \<le> gpu_free (gs ! i))
        \<and> (\<forall>j<i. gpu_free (gs ! j) < gpu_free (gs ! i))
        \<and> (sorted_wrt (<) (map gpu_index gs) \<longrightarrow>
             (\<forall>j<length gs. gpu_free (gs ! j) = gpu_free (gs ! i)
                \<longrightarrow> gpu_index (gs ! i) \<le> gpu_index (gs ! j)))"
    using i free low by blast
next
  show "get_gpu_memory_usage (Inr nvidia_smi_example) =
       [\<lparr>gpu_index = 0, gpu_used = 1000, gpu_total = 2000, gpu_free = 1000\<rparr>,
        \<lparr>gpu_index = 1, gpu_used = 500, gpu_total = 2000, gpu_free = 1500\<rparr>]"
    by code_simp
next
  show "select_best_gpu (Inr nvidia_smi_example) = Cuda 1"
    by code_simp
qed

theorem select_best_gpu_most_free_witness:
  "get_gpu_memory_usage (Inr nvidia_smi_example) \<noteq> []
   \<and> sorted_wrt (<) (map gpu_index (get_gpu_memory_usage (Inr nvidia_smi_example)))
   \<and> (\<exists>i<length (get_gpu_memory_usage (Inr nvidia_smi_example)).
        select_best_gpu (Inr nvidia_smi_example)
          = Cuda (gpu_index (get_gpu_memory_usage (Inr nvidia_smi_example) ! i))
        \<and> (\<forall>j<length (get_gpu_memory_usage (Inr nvidia_smi_example)).
              gpu_free (get_gpu_memory_usage (Inr nvidia_smi_example) ! j)
                \<le> gpu_free (get_gpu_memory_usage (Inr nvidia_smi_example) ! i)))
   \<and> select_best_gpu (Inr nvidia_smi_example) = Cuda 1"
proof -
  note t = select_best_gpu_most_free
  from t have l: "get_gpu_memory_usage (Inr nvidia_smi_example) =
       [\<lparr>gpu_index = 0, gpu_used = 1000, gpu_total = 2000, gpu_free = 1000\<rparr>,
        \<lparr>gpu_index = 1, gpu_used = 500, gpu_total = 2000, gpu_free = 1500\<rparr>]"
    by blast
  then have ne: "get_gpu_memory_usage (Inr nvidia_smi_example) \<noteq> []" by simp
  from l have s: "sorted_wrt (<) (map gpu_index (get_gpu_memory_usage (Inr nvidia_smi_example)))"
    by simp
  from t ne have "\<exists>i<length (get_gpu_memory_usage (Inr nvidia_smi_example)).
        select_best_gpu (Inr nvidia_smi_example)
          = Cuda (gpu_index (get_gpu_memory_usage (Inr nvidia_smi_example) ! i))
        \<and> (\<forall>j<length (get_gpu_memory_usage (Inr nvidia_smi_example)).
              gpu_free (get_gpu_memory_usage (Inr nvidia_smi_example) ! j)
                \<le> gpu_free (get_gpu_memory_usage (Inr nvidia_smi_example) ! i))"
    by blast
  moreover from t have "select_best_gpu (Inr nvidia_smi_example) = Cuda 1" by blast
  ultimately show ?thesis using ne s by blast
qed

section \<open>Device selection: the CPU fallback\<close>

text \<open>
  C4. When the device query raises (the subprocess, or reading a number out of its
  output) or answers no device, \<open>_select_best_gpu\<close> returns the CPU device. It has no
  error result: the exception is caught inside \<open>_get_gpu_memory_usage\<close>.
\<close>

theorem select_best_gpu_fallback:
  "((\<exists>e. run = Inl e) \<or> (\<exists>e. get_gpu_memory_usage_body run = Inl e)
      \<or> get_gpu_memory_usage run = []) \<longrightarrow> select_best_gpu run = Cpu"
  by (auto simp: select_best_gpu_def get_gpu_memory_usage_def get_gpu_memory_usage_body_def)

theorem select_best_gpu_fallback_witness:
  "select_best_gpu (Inl CalledProcessError) = Cpu
   \<and> get_gpu_memory_usage_body (Inr ''0, [N/A], 2000'') = Inl ValueError
   \<and> select_best_gpu (Inr ''0, [N/A], 2000'') = Cpu
   \<and> get_gpu_memory_usage (Inr []) = [] \<and> select_best_gpu (Inr []) = Cpu"
proof -
  have b: "get_gpu_memory_usage_body (Inr ''0, [N/A], 2000'') = Inl ValueError"
    by code_simp
  have e: "get_gpu_memory_usage (Inr []) = []"
    by code_simp
  from select_best_gpu_fallback [of "Inl CalledProcessError"]
  have "select_best_gpu (Inl CalledProcessError) = Cpu" by blast
  moreover from select_best_gpu_fallback [of "Inr ''0, [N/A], 2000''"] b
  have "select_best_gpu (Inr ''0, [N/A], 2000'') = Cpu" by blast
  moreover from select_best_gpu_fallback [of "Inr []"] e
  have "select_best_gpu (Inr []) = Cpu" by blast
  ultimately show ?thesis using b e by blast
qed

section \<open>The steps of \<open>predict\<close>\<close>

lemma list3: "length xs = 3 \<Longrightarrow> xs = [xs ! 0, xs ! 1, xs ! 2]"
  by (auto simp: numeral_3_eq_3 length_Suc_conv)

lemma cvtColor_rgb2bgr_Inr:
  "cvtColor img COLOR_RGB2BGR = Inr b \<Longrightarrow>
     length (shape img) = 3 \<and> (shape img ! 2 = 3 \<or> shape img ! 2 = 4)"
  by (auto simp: cvtColor_def split: if_splits)

lemma clamp_bbox_length: "length (clamp_bbox img b) = length b"
  by (simp add: clamp_bbox_def Let_def)

lemma clamp_bbox_nth:
  assumes "4 \<le> length b"
  shows "clamp_bbox img b ! 0 = max 0 (b ! 0)"
    and "clamp_bbox img b ! 1 = max 0 (b ! 1)"
    and "clamp_bbox img b ! 2 = min (int (shape img ! 1)) (b ! 2)"
    and "clamp_bbox img b ! 3 = min (int (shape img ! 0)) (b ! 3)"
proof -
  from assms have "0 < length b" "1 < length b" "2 < length b" "3 < length b" by auto
  then show "clamp_bbox img b ! 0 = max 0 (b ! 0)"
    and "clamp_bbox img b ! 1 = max 0 (b ! 1)"
    and "clamp_bbox img b ! 2 = min (int (shape img ! 1)) (b ! 2)"
    and "clamp_bbox img b ! 3 = min (int (shape img ! 0)) (b ! 3)"
    by (simp_all add: clamp_bbox_def Let_def nth_list_update)
qed

lemma face_crop_of_shape:
  assumes "length (shape img) = 3"
  shows "\<exists>fc. face_crop_of img bbox = Inr fc \<and>
           shape fc = [slice_index (shape img ! 0) (bbox ! 3) - slice_index (shape img ! 0) (bbox ! 1),
                       slice_index (shape img ! 1) (bbox ! 2) - slice_index (shape img ! 1) (bbox ! 0),
                       shape img ! 2]"
proof -
  from list3 [OF assms] have "drop 2 (shape img) = [shape img ! 2]"
    by (metis One_nat_def Suc_1 drop0 drop_Suc_Cons)
  with assms show ?thesis
    by (simp add: face_crop_of_def crop_def Let_def)
qed

lemma predict_found:
  assumes "cvtColor img COLOR_RGB2BGR = Inr bgr" and "face_detector self bgr = Inr faces"
    and "faces \<noteq> []" and "4 \<le> length (faces ! 0)"
    and "face_crop_of img (clamp_bbox img (faces ! 0)) = Inr fc"
  shows "predict ext self img =
           (if nd_size fc = 0 then Inr invalid_crop_result
            else infer ext self fc (clamp_bbox img (faces ! 0)))"
  using assms by (simp add: predict_def Let_def)

lemma no_face_flag: "map_of no_face_result ''face_detected'' = Some (PBool False)"
  by (simp add: no_face_result_def)

lemma invalid_crop_flag: "map_of invalid_crop_result ''face_detected'' = Some (PBool False)"
  by (simp add: invalid_crop_result_def)

lemma predict_prediction:
  assumes "predict ext self img = Inr r" and "map_of r ''face_detected'' = Some (PBool True)"
  shows "\<exists>bgr faces fc. cvtColor img COLOR_RGB2BGR = Inr bgr \<and> face_detector self bgr = Inr faces
           \<and> faces \<noteq> [] \<and> 4 \<le> length (faces ! 0)
           \<and> face_crop_of img (clamp_bbox img (faces ! 0)) = Inr fc \<and> nd_size fc \<noteq> 0
           \<and> infer ext self fc (clamp_bbox img (faces ! 0)) = Inr r"
proof -
  from assms(1) obtain bgr where bgr: "cvtColor img COLOR_RGB2BGR = Inr bgr"
    by (auto simp: predict_def split: sum.splits)
  with assms(1) obtain faces where faces: "face_detector self bgr = Inr faces"
    by (auto simp: predict_def split: sum.splits)
  have ne: "faces \<noteq> []"
  proof
    assume "faces = []"
    with assms(1) bgr faces have "r = no_face_result" by (simp add: predict_def)
    with assms(2) show False by (simp add: no_face_flag)
  qed
  have len: "4 \<le> length (faces ! 0)"
    using assms(1) bgr faces ne by (auto simp: predict_def split: if_splits)
  from cvtColor_rgb2bgr_Inr [OF bgr] have "length (shape img) = 3" by simp
  from face_crop_of_shape [OF this, of "clamp_bbox img (faces ! 0)"]
  obtain fc where fc: "face_crop_of img (clamp_bbox img (faces ! 0)) = Inr fc" by blast
  from predict_found [OF bgr faces ne len fc, of ext] assms(1)
  have r: "(if nd_size fc = 0 then Inr invalid_crop_result
            else infer ext self fc (clamp_bbox img (faces ! 0))) = Inr r" by simp
  have nz: "nd_size fc \<noteq> 0"
  proof
    assume "nd_size fc = 0"
    with r have "r = invalid_crop_result" by simp
    with assms(2) show False by (simp add: invalid_crop_flag)
  qed
  with r have "infer ext self fc (clamp_bbox img (faces ! 0)) = Inr r" by simp
  with bgr faces ne len fc nz show ?thesis by blast
qed

lemma infer_Inr:
  assumes "infer ext self fc bbox = Inr r"
  shows "\<exists>t output k label probs.
           preprocess_image ext self fc = Inr t \<and> model self t = Inr output
         \<and> argmax (softmax ext (expression output)) = Inr k
         \<and> emotion_probs_dict (softmax ext (expression output)) [0..<nat (n_classes self)] = Inr probs
         \<and> emotion_classes k = Some label
         \<and> r = [(''emotion'', PStr label), (''emotion_class'', PInt (int k)),
                (''valence'', PFloat (clamp (- 1) 1 (valence output))),
                (''arousal'', PFloat (clamp (- 1) 1 (arousal output))),
                (''emotion_probabilities'', PFloatDict probs),
                (''face_detected'', PBool True), (''face_bbox'', PIntList bbox)]"
  using assms by (auto simp: infer_def Let_def split: sum.splits option.splits)

lemma no_face_fields:
  "map_of no_face_result ''message'' = Some (PStr ''No face detected in image'')"
  "map_of no_face_result ''emotion'' = Some PNone"
  "map_of no_face_result ''emotion_class'' = Some PNone"
  "map_of no_face_result ''valence'' = Some PNone"
  "map_of no_face_result ''arousal'' = Some PNone"
  "map_of no_face_result ''emotion_probabilities'' = Some PNone"
  "map_of no_face_result ''face_bbox'' = None"
  by (simp_all add: no_face_result_def)

lemma invalid_crop_fields:
  "map_of invalid_crop_result ''message'' = Some (PStr ''Invalid face crop'')"
  "map_of invalid_crop_result ''emotion'' = Some PNone"
  "map_of invalid_crop_result ''emotion_class'' = Some PNone"
  "map_of invalid_crop_result ''valence'' = Some PNone"
  "map_of invalid_crop_result ''arousal'' = Some PNone"
  "map_of invalid_crop_result ''emotion_probabilities'' = Some PNone"
  "map_of invalid_crop_result ''face_bbox'' = None"
  by (simp_all add: invalid_crop_result_def)

section \<open>No face\<close>

text \<open>
  C5. For every image that the colour conversion accepts and on which the face detector
  answers the empty list, \<open>predict\<close> returns (it does not raise) the dict whose message
  is "No face detected in image", whose \<open>face_detected\<close> is False, and whose emotion,
  emotion_class, valence, arousal and emotion_probabilities are None; it has no
  \<open>face_bbox\<close>.
\<close>

theorem predict_no_face:
  "cvtColor img COLOR_RGB2BGR = Inr image_bgr \<and> face_detector self image_bgr = Inr [] \<longrightarrow>
     (\<exists>r. predict ext self img = Inr r
        \<and> map_of r ''message'' = Some (PStr ''No face detected in image'')
        \<and> map_of r ''face_detected'' = Some (PBool False)
        \<and> map_of r ''emotion'' = Some PNone
        \<and> map_of r ''emotion_class'' = Some PNone
        \<and> map_of r ''valence'' = Some PNone
        \<and> map_of r ''arousal'' = Some PNone
        \<and> map_of r ''emotion_probabilities'' = Some PNone
        \<and> map_of r ''face_bbox'' = None)"
proof
  assume "cvtColor img COLOR_RGB2BGR = Inr image_bgr \<and> face_detector self image_bgr = Inr []"
  then have "predict ext self img = Inr no_face_result"
    by (simp add: predict_def)
  then show "\<exists>r. predict ext self img = Inr r
        \<and> map_of r ''message'' = Some (PStr ''No face detected in image'')
        \<and> map_of r ''face_detected'' = Some (PBool False)
        \<and> map_of r ''emotion'' = Some PNone
        \<and> map_of r ''emotion_class'' = Some PNone
        \<and> map_of r ''valence'' = Some PNone
        \<and> map_of r ''arousal'' = Some PNone
        \<and> map_of r ''emotion_probabilities'' = Some PNone
        \<and> map_of r ''face_bbox'' = None"
    by (simp add: no_face_fields no_face_flag)
qed

lemma bgr_example: "cvtColor example_image COLOR_RGB2BGR = Inr (rgb2bgr example_image)"
  by (simp add: cvtColor_def example_image_def nd_size_def)

theorem predict_no_face_witness:
  "cvtColor example_image COLOR_RGB2BGR = Inr (rgb2bgr example_image)
   \<and> face_detector (example_detector []) (rgb2bgr example_image) = Inr []
   \<and> predict example_ext (example_detector []) example_image = Inr no_face_result
   \<and> map_of no_face_result ''message'' = Some (PStr ''No face detected in image'')"
proof -
  have d: "face_detector (example_detector []) (rgb2bgr example_image) = Inr []"
    by (simp add: example_detector_def)
  from predict_no_face [of example_image "rgb2bgr example_image" "example_detector []" example_ext]
    bgr_example d
  obtain r where "predict example_ext (example_detector []) example_image = Inr r"
    "map_of r ''message'' = Some (PStr ''No face detected in image'')" by blast
  moreover have "predict example_ext (example_detector []) example_image = Inr no_face_result"
    using bgr_example d by (simp add: predict_def)
  ultimately show ?thesis using bgr_example d by simp
qed

section \<open>Invalid crop\<close>

text \<open>
  C6. When a face is detected (a box of at least four entries), the crop is the
  sub-array that the slice by the bounded box takes out of the image. If that crop has
  no rows or no columns, and in particular if the bounded box has x1 = x2 or y1 = y2,
  \<open>predict\<close> returns the dict with message "Invalid face crop" and every numeric field
  None. Conversely, a result with \<open>face_detected\<close> True is returned only when the crop
  has at least one row and one column.
\<close>

theorem predict_invalid_crop:
  "(cvtColor img COLOR_RGB2BGR = Inr image_bgr \<and> face_detector self image_bgr = Inr faces
     \<and> faces \<noteq> [] \<and> 4 \<le> length (faces ! 0) \<longrightarrow>
   (\<exists>face_crop. face_crop_of img (clamp_bbox img (faces ! 0)) = Inr face_crop
      \<and> (shape face_crop ! 0 = 0 \<or> shape face_crop ! 1 = 0
            \<longrightarrow> predict ext self img = Inr invalid_crop_result)
      \<and> (clamp_bbox img (faces ! 0) ! 0 = clamp_bbox img (faces ! 0) ! 2
           \<or> clamp_bbox img (faces ! 0) ! 1 = clamp_bbox img (faces ! 0) ! 3
            \<longrightarrow> predict ext self img = Inr invalid_crop_result)
      \<and> (\<forall>r. predict ext self img = Inr r \<and> map_of r ''face_detected'' = Some (PBool True)
            \<longrightarrow> 0 < shape face_crop ! 0 \<and> 0 < shape face_crop ! 1)))
   \<and> map_of invalid_crop_result ''message'' = Some (PStr ''Invalid face crop'')
   \<and> map_of invalid_crop_result ''emotion'' = Some PNone
   \<and> map_of invalid_crop_result ''emotion_class'' = Some PNone
   \<and> map_of invalid_crop_result ''valence'' = Some PNone
   \<and> map_of invalid_crop_result ''arousal'' = Some PNone
   \<and> map_of invalid_crop_result ''emotion_probabilities'' = Some PNone
   \<and> map_of invalid_crop_result ''face_bbox'' = None"
proof (intro conjI impI)
  assume a: "cvtColor img COLOR_RGB2BGR = Inr image_bgr \<and> face_detector self image_bgr = Inr faces
     \<and> faces \<noteq> [] \<and> 4 \<le> length (faces ! 0)"
  define bbox where "bbox = clamp_bbox img (faces ! 0)"
  from a cvtColor_rgb2bgr_Inr have l3: "length (shape img) = 3"
    and ch: "shape img ! 2 = 3 \<or> shape img ! 2 = 4" by blast+
  from face_crop_of_shape [OF l3, of bbox] obtain fc where
    fc: "face_crop_of img bbox = Inr fc" and
    sh: "shape fc = [slice_index (shape img ! 0) (bbox ! 3) - slice_index (shape img ! 0) (bbox ! 1),
                     slice_index (shape img ! 1) (bbox ! 2) - slice_index (shape img ! 1) (bbox ! 0),
                     shape img ! 2]"
    by blast
  from a fc have p: "predict ext self img =
      (if nd_size fc = 0 then Inr invalid_crop_result else infer ext self fc bbox)"
    unfolding bbox_def by (intro predict_found) auto
  have sz: "nd_size fc = shape fc ! 0 * shape fc ! 1 * shape img ! 2"
    using sh by (simp add: nd_size_def)
  have c1: "predict ext self img = Inr invalid_crop_result"
    if "shape fc ! 0 = 0 \<or> shape fc ! 1 = 0"
    using that p sz by auto
  have c2: "predict ext self img = Inr invalid_crop_result"
    if "bbox ! 0 = bbox ! 2 \<or> bbox ! 1 = bbox ! 3"
  proof -
    from that sh have "shape fc ! 0 = 0 \<or> shape fc ! 1 = 0" by auto
    then show ?thesis by (rule c1)
  qed
  have c3: "0 < shape fc ! 0 \<and> 0 < shape fc ! 1"
    if "predict ext self img = Inr r \<and> map_of r ''face_detected'' = Some (PBool True)" for r
  proof (rule ccontr)
    assume "\<not> (0 < shape fc ! 0 \<and> 0 < shape fc ! 1)"
    then have "predict ext self img = Inr invalid_crop_result" using c1 by auto
    with that have "map_of invalid_crop_result ''face_detected'' = Some (PBool True)" by auto
    then show False by (simp add: invalid_crop_flag)
  qed
  show "\<exists>face_crop. face_crop_of img (clamp_bbox img (faces ! 0)) = Inr face_crop
      \<and> (shape face_crop ! 0 = 0 \<or> shape face_crop ! 1 = 0
            \<longrightarrow> predict ext self img = Inr invalid_crop_result)
      \<and> (clamp_bbox img (faces ! 0) ! 0 = clamp_bbox img (faces ! 0) ! 2
           \<or> clamp_bbox img (faces ! 0) ! 1 = clamp_bbox img (faces ! 0) ! 3
            \<longrightarrow> predict ext self img = Inr invalid_crop_result)
      \<and> (\<forall>r. predict ext self img = Inr r \<and> map_of r ''face_detected'' = Some (PBool True)
            \<longrightarrow> 0 < shape face_crop ! 0 \<and> 0 < shape face_crop ! 1)"
  proof (intro exI [of _ fc] conjI impI allI)
    show "face_crop_of img (clamp_bbox img (faces ! 0)) = Inr fc"
      using fc by (simp add: bbox_def)
  next
    assume "shape fc ! 0 = 0 \<or> shape fc ! 1 = 0"
    then show "predict ext self img = Inr invalid_crop_result" by (rule c1)
  next
    assume "clamp_bbox img (faces ! 0) ! 0 = clamp_bbox img (faces ! 0) ! 2
           \<or> clamp_bbox img (faces ! 0) ! 1 = clamp_bbox img (faces ! 0) ! 3"
    then show "predict ext self img = Inr invalid_crop_result"
      using c2 by (simp add: bbox_def)
  next
    fix r
    assume "predict ext self img = Inr r \<and> map_of r ''face_detected'' = Some (PBool True)"
    from c3 [OF this] show "0 < shape fc ! 0" and "0 < shape fc ! 1" by simp_all
  qed
qed (simp_all add: invalid_crop_fields)

lemma predict_example_inside:
  "predict example_ext (example_detector [[1, 1, 3, 3, 0]]) example_image =
     Inr [(''emotion'', PStr ''Neutral''), (''emotion_class'', PInt 0),
          (''valence'', PFloat 1), (''arousal'', PFloat (- 1 / 4)),
          (''emotion_probabilities'',
           PFloatDict [(''Neutral'', 1 / 8), (''Happy'', 1 / 8), (''Sad'', 1 / 8),
                       (''Surprise'', 1 / 8), (''Fear'', 1 / 8), (''Disgust'', 1 / 8),
                       (''Anger'', 1 / 8), (''Contempt'', 1 / 8)]),
          (''face_detected'', PBool True), (''face_bbox'', PIntList [1, 1, 3, 3, 0])]"
  by code_simp

theorem predict_invalid_crop_witness:
  "cvtColor example_image COLOR_RGB2BGR = Inr (rgb2bgr example_image)
   \<and> face_detector (example_detector [[1, 1, 1, 3, 0]]) (rgb2bgr example_image) = Inr [[1, 1, 1, 3, 0]]
   \<and> clamp_bbox example_image ([[1, 1, 1, 3, 0]] ! 0) ! 0 = clamp_bbox example_image ([[1, 1, 1, 3, 0]] ! 0) ! 2
   \<and> predict example_ext (example_detector [[1, 1, 1, 3, 0]]) example_image = Inr invalid_crop_result
   \<and> face_detector (example_detector [[1, 1, 3, 3, 0]]) (rgb2bgr example_image) = Inr [[1, 1, 3, 3, 0]]
   \<and> (\<exists>r face_crop. predict example_ext (example_detector [[1, 1, 3, 3, 0]]) example_image = Inr r
         \<and> map_of r ''face_detected'' = Some (PBool True)
         \<and> face_crop_of example_image (clamp_bbox example_image ([[1, 1, 3, 3, 0]] ! 0)) = Inr face_crop
         \<and> 0 < shape face_crop ! 0 \<and> 0 < shape face_crop ! 1)"
proof -
  have d1: "face_detector (example_detector [[1, 1, 1, 3, 0]]) (rgb2bgr example_image) = Inr [[1, 1, 1, 3, 0]]"
    by (simp add: example_detector_def)
  have d2: "face_detector (example_detector [[1, 1, 3, 3, 0]]) (rgb2bgr example_image) = Inr [[1, 1, 3, 3, 0]]"
    by (simp add: example_detector_def)
  have z: "clamp_bbox example_image ([[1, 1, 1, 3, 0]] ! 0) ! 0
             = clamp_bbox example_image ([[1, 1, 1, 3, 0]] ! 0) ! 2"
    by (simp add: clamp_bbox_def example_image_def)
  from predict_invalid_crop [of example_image "rgb2bgr example_image"
      "example_detector [[1, 1, 1, 3, 0]]" "[[1, 1, 1, 3, 0]]" example_ext] bgr_example d1 z
  have p1: "predict example_ext (example_detector [[1, 1, 1, 3, 0]]) example_image
              = Inr invalid_crop_result"
    by auto
  have ex: "\<exists>r. predict example_ext (example_detector [[1, 1, 3, 3, 0]]) example_image = Inr r
         \<and> map_of r ''face_detected'' = Some (PBool True)"
    using predict_example_inside by simp
  from predict_invalid_crop [of example_image "rgb2bgr example_image"
      "example_detector [[1, 1, 3, 3, 0]]" "[[1, 1, 3, 3, 0]]" example_ext] bgr_example d2 ex
  have "\<exists>r face_crop. predict example_ext (example_detector [[1, 1, 3, 3, 0]]) example_image = Inr r
         \<and> map_of r ''face_detected'' = Some (PBool True)
         \<and> face_crop_of example_image (clamp_bbox example_image ([[1, 1, 3, 3, 0]] ! 0)) = Inr face_crop
         \<and> 0 < shape face_crop ! 0 \<and> 0 < shape face_crop ! 1"
    by (auto simp del: One_nat_def)
  with bgr_example d1 d2 z p1 show ?thesis by blast
qed

section \<open>The flag of an invalid crop\<close>

lemma results_differ_only_in_message:
  "k \<noteq> ''message'' \<Longrightarrow> map_of invalid_crop_result k = map_of no_face_result k"
  by (simp add: invalid_crop_result_def no_face_result_def)

text \<open>
  C10. When a face is detected but its crop is empty, the result of \<open>predict\<close> has
  \<open>face_detected\<close> False, as the result for no face has; the two results agree on
  every key but \<open>message\<close>, where they differ.
\<close>

theorem invalid_crop_face_detected_false:
  "cvtColor img COLOR_RGB2BGR = Inr image_bgr \<and> face_detector self image_bgr = Inr faces
     \<and> faces \<noteq> [] \<and> 4 \<le> length (faces ! 0)
     \<and> face_crop_of img (clamp_bbox img (faces ! 0)) = Inr face_crop \<and> nd_size face_crop = 0
   \<longrightarrow>
   (\<exists>r. predict ext self img = Inr r
      \<and> map_of r ''face_detected'' = Some (PBool False)
      \<and> map_of r ''face_detected'' = map_of no_face_result ''face_detected''
      \<and> (\<forall>k. k \<noteq> ''message'' \<longrightarrow> map_of r k = map_of no_face_result k)
      \<and> map_of r ''message'' = Some (PStr ''Invalid face crop'')
      \<and> map_of r ''message'' \<noteq> map_of no_face_result ''message'')"
proof
  assume a: "cvtColor img COLOR_RGB2BGR = Inr image_bgr \<and> face_detector self image_bgr = Inr faces
     \<and> faces \<noteq> [] \<and> 4 \<le> length (faces ! 0)
     \<and> face_crop_of img (clamp_bbox img (faces ! 0)) = Inr face_crop \<and> nd_size face_crop = 0"
  then have "predict ext self img =
      (if nd_size face_crop = 0 then Inr invalid_crop_result
       else infer ext self face_crop (clamp_bbox img (faces ! 0)))"
    by (intro predict_found) auto
  with a have p: "predict ext self img = Inr invalid_crop_result" by simp
  have "map_of invalid_crop_result ''message'' \<noteq> map_of no_face_result ''message''"
    by (simp add: invalid_crop_result_def no_face_result_def)
  with p show "\<exists>r. predict ext self img = Inr r
      \<and> map_of r ''face_detected'' = Some (PBool False)
      \<and> map_of r ''face_detected'' = map_of no_face_result ''face_detected''
      \<and> (\<forall>k. k \<noteq> ''message'' \<longrightarrow> map_of r k = map_of no_face_result k)
      \<and> map_of r ''message'' = Some (PStr ''Invalid face crop'')
      \<and> map_of r ''message'' \<noteq> map_of no_face_result ''message''"
    by (simp add: invalid_crop_flag no_face_flag results_differ_only_in_message
        invalid_crop_fields)
qed

lemma example_empty_crop:
  "face_crop_of example_image (clamp_bbox example_image ([[1, 1, 1, 3, 0]] ! 0))
     = Inr \<lparr>shape = [2, 0, 3], data = []\<rparr>"
  by code_simp

theorem invalid_crop_face_detected_false_witness:
  "cvtColor example_image COLOR_RGB2BGR = Inr (rgb2bgr example_image)
   \<and> face_detector (example_detector [[1, 1, 1, 3, 0]]) (rgb2bgr example_image) = Inr [[1, 1, 1, 3, 0]]
   \<and> face_crop_of example_image (clamp_bbox example_image ([[1, 1, 1, 3, 0]] ! 0))
        = Inr \<lparr>shape = [2, 0, 3], data = []\<rparr>
   \<and> nd_size \<lparr>shape = [2, 0, 3], data = []\<rparr> = 0
   \<and> (\<exists>r. predict example_ext (example_detector [[1, 1, 1, 3, 0]]) example_image = Inr r
         \<and> map_of r ''face_detected'' = Some (PBool False)
         \<and> map_of r ''message'' = Some (PStr ''Invalid face crop''))"
proof -
  have d: "face_detector (example_detector [[1, 1, 1, 3, 0]]) (rgb2bgr example_image) = Inr [[1, 1, 1, 3, 0]]"
    by (simp add: example_detector_def)
  have z: "nd_size \<lparr>shape = [2, 0, 3], data = []\<rparr> = 0"
    by (simp add: nd_size_def)
  from invalid_crop_face_detected_false [of example_image "rgb2bgr example_image"
      "example_detector [[1, 1, 1, 3, 0]]" "[[1, 1, 1, 3, 0]]" "\<lparr>shape = [2, 0, 3], data = []\<rparr>"
      example_ext] bgr_example d example_empty_crop z
  have "\<exists>r. predict example_ext (example_detector [[1, 1, 1, 3, 0]]) example_image = Inr r
         \<and> map_of r ''face_detected'' = Some (PBool False)
         \<and> map_of r ''message'' = Some (PStr ''Invalid face crop'')"
    by auto
  with bgr_example d example_empty_crop z show ?thesis by blast
qed

section \<open>Valence and arousal\<close>

lemma clamp_range: "- 1 \<le> clamp (- 1) 1 x \<and> clamp (- 1) 1 x \<le> 1"
  by (simp add: clamp_def)

lemma clamp_idem: "clamp (- 1) 1 (clamp (- 1) 1 x) = clamp (- 1) 1 x"
  by (simp add: clamp_def)

text \<open>
  C7. In every result of \<open>predict\<close> with \<open>face_detected\<close> True, valence and arousal are
  the model's valence and arousal, each clamped on its own, and both lie between -1 and
  1. Clamping is idempotent.
\<close>

theorem valence_arousal_clamped:
  "(predict ext self img = Inr r \<and> map_of r ''face_detected'' = Some (PBool True) \<longrightarrow>
      (\<exists>v a t output. map_of r ''valence'' = Some (PFloat v) \<and> map_of r ''arousal'' = Some (PFloat a)
         \<and> - 1 \<le> v \<and> v \<le> 1 \<and> - 1 \<le> a \<and> a \<le> 1
         \<and> model self t = Inr output
         \<and> v = clamp (- 1) 1 (valence output) \<and> a = clamp (- 1) 1 (arousal output)))
   \<and> clamp (- 1) 1 (clamp (- 1) 1 x) = clamp (- 1) 1 x"
proof (intro conjI impI)
  assume a: "predict ext self img = Inr r \<and> map_of r ''face_detected'' = Some (PBool True)"
  from predict_prediction [of ext self img r] a
  obtain fc bbox where "infer ext self fc bbox = Inr r" by blast
  from infer_Inr [OF this] obtain t out k label probs where
    m: "model self t = Inr out" and
    r: "r = [(''emotion'', PStr label), (''emotion_class'', PInt (int k)),
                (''valence'', PFloat (clamp (- 1) 1 (valence out))),
                (''arousal'', PFloat (clamp (- 1) 1 (arousal out))),
                (''emotion_probabilities'', PFloatDict probs),
                (''face_detected'', PBool True), (''face_bbox'', PIntList bbox)]"
    by blast
  from r have "map_of r ''valence'' = Some (PFloat (clamp (- 1) 1 (valence out)))"
    and "map_of r ''arousal'' = Some (PFloat (clamp (- 1) 1 (arousal out)))"
    by simp_all
  with m clamp_range [of "valence out"] clamp_range [of "arousal out"]
  show "\<exists>v a t output. map_of r ''valence'' = Some (PFloat v) \<and> map_of r ''arousal'' = Some (PFloat a)
         \<and> - 1 \<le> v \<and> v \<le> 1 \<and> - 1 \<le> a \<and> a \<le> 1
         \<and> model self t = Inr output
         \<and> v = clamp (- 1) 1 (valence output) \<and> a = clamp (- 1) 1 (arousal output)"
    by blast
next
  show "clamp (- 1) 1 (clamp (- 1) 1 x) = clamp (- 1) 1 x" by (rule clamp_idem)
qed

theorem valence_arousal_clamped_witness:
  "predict example_ext (example_detector [[1, 1, 3, 3, 0]]) example_image \<noteq> Inl IndexError
   \<and> (\<exists>r v a. predict example_ext (example_detector [[1, 1, 3, 3, 0]]) example_image = Inr r
         \<and> map_of r ''face_detected'' = Some (PBool True)
         \<and> map_of r ''valence'' = Some (PFloat v) \<and> map_of r ''arousal'' = Some (PFloat a)
         \<and> - 1 \<le> v \<and> v \<le> 1 \<and> - 1 \<le> a \<and> a \<le> 1)"
proof -
  define r where "r = [(''emotion'', PStr ''Neutral''), (''emotion_class'', PInt 0),
          (''valence'', PFloat 1), (''arousal'', PFloat (- 1 / 4)),
          (''emotion_probabilities'',
           PFloatDict [(''Neutral'', 1 / 8), (''Happy'', 1 / 8), (''Sad'', 1 / 8),
                       (''Surprise'', 1 / 8), (''Fear'', 1 / 8), (''Disgust'', 1 / 8),
                       (''Anger'', 1 / 8), (''Contempt'', 1 / 8)]),
          (''face_detected'', PBool True), (''face_bbox'', PIntList [1, 1, 3, 3, 0])]"
  have p: "predict example_ext (example_detector [[1, 1, 3, 3, 0]]) example_image = Inr r"
    using predict_example_inside by (simp add: r_def)
  have f: "map_of r ''face_detected'' = Some (PBool True)"
    by (simp add: r_def)
  from valence_arousal_clamped [of example_ext "example_detector [[1, 1, 3, 3, 0]]"
      example_image r] p f
  obtain v a where "map_of r ''valence'' = Some (PFloat v)" "map_of r ''arousal'' = Some (PFloat a)"
    "- 1 \<le> v" "v \<le> 1" "- 1 \<le> a" "a \<le> 1"
    by blast
  with p f show ?thesis by auto
qed

section \<open>The bounding box of a prediction\<close>

text \<open>
  C1. On the 4 by 4 example image, with a detector that reports the box x1 = 1, y1 = 1,
  x2 = -1, y2 = 3, the bound \<open>min(width, x2)\<close> leaves x2 at -1, the slice \<open>1:-1\<close> counts
  from the end and takes columns 1 and 2, the crop is not empty, and \<open>predict\<close> returns a
  prediction whose \<open>face_bbox\<close> has x2 = -1, so x1 < x2 fails.
\<close>

theorem predict_bbox_negative_x2:
  "predict example_ext (example_detector [[1, 1, - 1, 3, 0]]) example_image =
     Inr [(''emotion'', PStr ''Neutral''), (''emotion_class'', PInt 0),
          (''valence'', PFloat 1), (''arousal'', PFloat (- 1 / 4)),
          (''emotion_probabilities'',
           PFloatDict [(''Neutral'', 1 / 8), (''Happy'', 1 / 8), (''Sad'', 1 / 8),
                       (''Surprise'', 1 / 8), (''Fear'', 1 / 8), (''Disgust'', 1 / 8),
                       (''Anger'', 1 / 8), (''Contempt'', 1 / 8)]),
          (''face_detected'', PBool True), (''face_bbox'', PIntList [1, 1, - 1, 3, 0])]
   \<and> face_crop_of example_image (clamp_bbox example_image [1, 1, - 1, 3, 0])
       = Inr \<lparr>shape = [2, 2, 3], data = [15, 16, 17, 18, 19, 20, 27, 28, 29, 30, 31, 32]\<rparr>
   \<and> \<not> ([1, 1, - 1, 3, 0 :: int] ! 0 < [1, 1, - 1, 3, 0] ! 2)"
proof (intro conjI)
  show "predict example_ext (example_detector [[1, 1, - 1, 3, 0]]) example_image =
     Inr [(''emotion'', PStr ''Neutral''), (''emotion_class'', PInt 0),
          (''valence'', PFloat 1), (''arousal'', PFloat (- 1 / 4)),
          (''emotion_probabilities'',
           PFloatDict [(''Neutral'', 1 / 8), (''Happy'', 1 / 8), (''Sad'', 1 / 8),
                       (''Surprise'', 1 / 8), (''Fear'', 1 / 8), (''Disgust'', 1 / 8),
                       (''Anger'', 1 / 8), (''Contempt'', 1 / 8)]),
          (''face_detected'', PBool True), (''face_bbox'', PIntList [1, 1, - 1, 3, 0])]"
    by code_simp
  show "face_crop_of example_image (clamp_bbox example_image [1, 1, - 1, 3, 0])
       = Inr \<lparr>shape = [2, 2, 3], data = [15, 16, 17, 18, 19, 20, 27, 28, 29, 30, 31, 32]\<rparr>"
    by code_simp
  show "\<not> ([1, 1, - 1, 3, 0 :: int] ! 0 < [1, 1, - 1, 3, 0] ! 2)"
    by simp
qed

text \<open>
  When the detector's x2 and y2 are not negative, the box of a prediction does satisfy
  0 \<le> x1 < x2 \<le> width and 0 \<le> y1 < y2 \<le> height.
\<close>

lemma predict_bbox_within_image:
  assumes "cvtColor img COLOR_RGB2BGR = Inr image_bgr"
    and "face_detector self image_bgr = Inr faces"
    and "predict ext self img = Inr r"
    and "map_of r ''face_detected'' = Some (PBool True)"
    and "0 \<le> faces ! 0 ! 2" and "0 \<le> faces ! 0 ! 3"
  shows "\<exists>bbox. map_of r ''face_bbox'' = Some (PIntList bbox)
           \<and> 0 \<le> bbox ! 0 \<and> bbox ! 0 < bbox ! 2 \<and> bbox ! 2 \<le> int (shape img ! 1)
           \<and> 0 \<le> bbox ! 1 \<and> bbox ! 1 < bbox ! 3 \<and> bbox ! 3 \<le> int (shape img ! 0)"
proof -
  from predict_prediction [OF assms(3,4)] assms(1,2)
  obtain fc where len: "4 \<le> length (faces ! 0)"
    and fc: "face_crop_of img (clamp_bbox img (faces ! 0)) = Inr fc"
    and nz: "nd_size fc \<noteq> 0"
    and inf: "infer ext self fc (clamp_bbox img (faces ! 0)) = Inr r"
    by auto
  define bbox where "bbox = clamp_bbox img (faces ! 0)"
  from infer_Inr [OF inf] have bb: "map_of r ''face_bbox'' = Some (PIntList bbox)"
    by (auto simp: bbox_def)
  from cvtColor_rgb2bgr_Inr [OF assms(1)] have l3: "length (shape img) = 3" by simp
  from face_crop_of_shape [OF l3, of bbox] fc
  have sh: "shape fc = [slice_index (shape img ! 0) (bbox ! 3) - slice_index (shape img ! 0) (bbox ! 1),
                     slice_index (shape img ! 1) (bbox ! 2) - slice_index (shape img ! 1) (bbox ! 0),
                     shape img ! 2]"
    by (simp add: bbox_def)
  with nz have pos: "slice_index (shape img ! 0) (bbox ! 1) < slice_index (shape img ! 0) (bbox ! 3)"
    "slice_index (shape img ! 1) (bbox ! 0) < slice_index (shape img ! 1) (bbox ! 2)"
    by (simp_all add: nd_size_def)
  note n = clamp_bbox_nth [OF len, of img, folded bbox_def]
  from pos(2) assms(5) n(1,3)
  have x: "0 \<le> bbox ! 0 \<and> bbox ! 0 < bbox ! 2 \<and> bbox ! 2 \<le> int (shape img ! 1)"
    by (auto simp: slice_index_def split: if_splits)
  from pos(1) assms(6) n(2,4)
  have y: "0 \<le> bbox ! 1 \<and> bbox ! 1 < bbox ! 3 \<and> bbox ! 3 \<le> int (shape img ! 0)"
    by (auto simp: slice_index_def split: if_splits)
  from bb x y show ?thesis by blast
qed

section \<open>Preprocessing: channel count\<close>

text \<open>
  C8. Preprocessing a non-empty grayscale array gives what preprocessing its three-channel
  replication gives, and preprocessing a four-channel array gives what preprocessing its
  first three channels gives: the same tensor, or the same exception of the resize.
\<close>

theorem preprocess_channel_normalisation:
  "(length (shape g) = 2 \<and> nd_size g \<noteq> 0 \<longrightarrow>
      preprocess_image ext self g = preprocess_image ext self (gray2rgb g))
   \<and> (length (shape a) = 3 \<and> shape a ! 2 = 4 \<longrightarrow>
      preprocess_image ext self a = preprocess_image ext self (first3 a))"
proof (intro conjI impI)
  assume g: "length (shape g) = 2 \<and> nd_size g \<noteq> 0"
  then have "length (shape (gray2rgb g)) = 3" "shape (gray2rgb g) ! 2 = 3"
    by (simp_all add: gray2rgb_def nth_append)
  with g show "preprocess_image ext self g = preprocess_image ext self (gray2rgb g)"
    by (simp add: preprocess_image_def cvtColor_def)
next
  assume a: "length (shape a) = 3 \<and> shape a ! 2 = 4"
  then have "length (shape (first3 a)) = 3" "shape (first3 a) ! 2 = 3"
    by (simp_all add: first3_def Let_def nth_append)
  with a show "preprocess_image ext self a = preprocess_image ext self (first3 a)"
    by (simp add: preprocess_image_def)
qed

theorem preprocess_channel_normalisation_witness:
  "length (shape example_gray) = 2 \<and> nd_size example_gray \<noteq> 0
   \<and> gray2rgb example_gray = \<lparr>shape = [1, 2, 3], data = [10, 10, 10, 20, 20, 20]\<rparr>
   \<and> preprocess_image example_ext (example_detector []) example_gray
       = preprocess_image example_ext (example_detector [])
           \<lparr>shape = [1, 2, 3], data = [10, 10, 10, 20, 20, 20]\<rparr>
   \<and> preprocess_image example_ext (example_detector []) example_gray
       = Inr \<lparr>tshape = [1, 3, 2, 2],
              tdata = [2 / 51, 4 / 51, 2 / 51, 4 / 51, 2 / 51, 4 / 51, 2 / 51, 4 / 51,
                       2 / 51, 4 / 51, 2 / 51, 4 / 51],
              tdevice = Cpu\<rparr>
   \<and> length (shape example_rgba) = 3 \<and> shape example_rgba ! 2 = 4
   \<and> first3 example_rgba = \<lparr>shape = [1, 1, 3], data = [10, 20, 30]\<rparr>
   \<and> preprocess_image example_ext (example_detector []) example_rgba
       = preprocess_image example_ext (example_detector []) \<lparr>shape = [1, 1, 3], data = [10, 20, 30]\<rparr>
   \<and> preprocess_image example_ext (example_detector []) example_rgba
       = Inr \<lparr>tshape = [1, 3, 2, 2],
              tdata = [2 / 51, 2 / 51, 2 / 51, 2 / 51, 4 / 51, 4 / 51, 4 / 51, 4 / 51,
                       2 / 17, 2 / 17, 2 / 17, 2 / 17],
              tdevice = Cpu\<rparr>"
proof -
  have g: "length (shape example_gray) = 2 \<and> nd_size example_gray \<noteq> 0"
    by (simp add: example_gray_def nd_size_def)
  have gr: "gray2rgb example_gray = \<lparr>shape = [1, 2, 3], data = [10, 10, 10, 20, 20, 20]\<rparr>"
    by (simp add: example_gray_def gray2rgb_def)
  have a: "length (shape example_rgba) = 3 \<and> shape example_rgba ! 2 = 4"
    by (simp add: example_rgba_def)
  have ar: "first3 example_rgba = \<lparr>shape = [1, 1, 3], data = [10, 20, 30]\<rparr>"
    by code_simp
  have pg: "preprocess_image example_ext (example_detector []) example_gray
       = Inr \<lparr>tshape = [1, 3, 2, 2],
              tdata = [2 / 51, 4 / 51, 2 / 51, 4 / 51, 2 / 51, 4 / 51, 2 / 51, 4 / 51,
                       2 / 51, 4 / 51, 2 / 51, 4 / 51],
              tdevice = Cpu\<rparr>"
    by code_simp
  have pa: "preprocess_image example_ext (example_detector []) example_rgba
       = Inr \<lparr>tshape = [1, 3, 2, 2],
              tdata = [2 / 51, 2 / 51, 2 / 51, 2 / 51, 4 / 51, 4 / 51, 4 / 51, 4 / 51,
                       2 / 17, 2 / 17, 2 / 17, 2 / 17],
              tdevice = Cpu\<rparr>"
    by code_simp
  from preprocess_channel_normalisation [of example_gray example_ext "example_detector []"
      example_rgba] g a gr ar
  have "preprocess_image example_ext (example_detector []) example_gray
       = preprocess_image example_ext (example_detector [])
           \<lparr>shape = [1, 2, 3], data = [10, 10, 10, 20, 20, 20]\<rparr>"
    and "preprocess_image example_ext (example_detector []) example_rgba
       = preprocess_image example_ext (example_detector []) \<lparr>shape = [1, 1, 3], data = [10, 20, 30]\<rparr>"
    by simp_all
  with g gr a ar pg pa show ?thesis by simp
qed

section \<open>Model loading\<close>

text \<open>
  C9, as stated, fails: with the weights file present and a \<open>torch.load\<close> that raises,
  \<open>_load_model\<close> raises and start-up is aborted.
\<close>

theorem load_model_existing_file_counterexample:
  "state_dict_path example_module_file 8 = Inr [''srv'', ''emonet'', ''pretrained'', ''emonet_8.pth'']
   \<and> path_exists (example_loaders True (Inl UnpicklingError))
        [''srv'', ''emonet'', ''pretrained'', ''emonet_8.pth'']
   \<and> load_model (example_loaders True (Inl UnpicklingError)) example_module_file 8 Cpu
        = Inl UnpicklingError
   \<and> init (example_loaders True (Inl UnpicklingError)) (Inl CalledProcessError)
        example_module_file 8 256 = Inl UnpicklingError"
proof -
  have p: "state_dict_path example_module_file 8
             = Inr [''srv'', ''emonet'', ''pretrained'', ''emonet_8.pth'']"
    by code_simp
  have e: "path_exists (example_loaders True (Inl UnpicklingError))
        [''srv'', ''emonet'', ''pretrained'', ''emonet_8.pth'']"
    by (simp add: example_loaders_def)
  have l: "load_model (example_loaders True (Inl UnpicklingError)) example_module_file 8 Cpu
        = Inl UnpicklingError"
    using p by (simp add: load_model_def example_loaders_def)
  have "select_best_gpu (Inl CalledProcessError) = Cpu"
    by (simp add: select_best_gpu_def get_gpu_memory_usage_def get_gpu_memory_usage_body_def)
  with l have "init (example_loaders True (Inl UnpicklingError)) (Inl CalledProcessError)
        example_module_file 8 256 = Inl UnpicklingError"
    by (simp add: init_def)
  with p e l show ?thesis by simp
qed

text \<open>
  C9, amended. The weights path is \<open>pretrained/emonet_{n_classes}.pth\<close> under the second
  parent of the module file. When no file is there, \<open>_load_model\<close> raises
  FileNotFoundError for that path, and so does \<open>__init__\<close>. When the file is there, that
  error can only come from a loader, and \<open>_load_model\<close> returns a model exactly when
  \<open>torch.load\<close>, the EmoNet constructor and \<open>load_state_dict\<close> all succeed.
\<close>

theorem load_model_file_check:
  "state_dict_path module_file n = Inr p \<longrightarrow>
     p = take (length module_file - 2) module_file @ [''pretrained'', ''emonet_'' @ str_int n @ ''.pth'']
   \<and> (\<not> path_exists t p \<longrightarrow>
         load_model t module_file n dev = Inl (FileNotFoundError p)
       \<and> init t run module_file n sz = Inl (FileNotFoundError p))
   \<and> (path_exists t p \<longrightarrow>
         load_model t module_file n dev \<noteq> Inl (FileNotFoundError p)
           \<or> torch_load t p = Inl (FileNotFoundError p)
           \<or> EmoNet t n dev = Inl (FileNotFoundError p)
           \<or> (\<exists>m sd. load_state_dict t m sd = Inl (FileNotFoundError p)))
   \<and> (path_exists t p \<longrightarrow>
         ((\<exists>m. load_model t module_file n dev = Inr m) \<longleftrightarrow>
          (\<exists>loaded m m'. torch_load t p = Inr loaded \<and> EmoNet t n dev = Inr m
              \<and> load_state_dict t m (strip_module loaded) = Inr m')))"
proof (intro impI conjI)
  assume p: "state_dict_path module_file n = Inr p"
  then show "p = take (length module_file - 2) module_file
                  @ [''pretrained'', ''emonet_'' @ str_int n @ ''.pth'']"
    by (auto simp: state_dict_path_def split: if_splits)
next
  assume p: "state_dict_path module_file n = Inr p" and "\<not> path_exists t p"
  then show "load_model t module_file n dev = Inl (FileNotFoundError p)"
    by (simp add: load_model_def)
next
  assume p: "state_dict_path module_file n = Inr p" and "\<not> path_exists t p"
  then have "load_model t module_file n (select_best_gpu run) = Inl (FileNotFoundError p)"
    by (simp add: load_model_def)
  then show "init t run module_file n sz = Inl (FileNotFoundError p)"
    by (simp add: init_def)
next
  assume p: "state_dict_path module_file n = Inr p" and "path_exists t p"
  then show "load_model t module_file n dev \<noteq> Inl (FileNotFoundError p)
           \<or> torch_load t p = Inl (FileNotFoundError p)
           \<or> EmoNet t n dev = Inl (FileNotFoundError p)
           \<or> (\<exists>m sd. load_state_dict t m sd = Inl (FileNotFoundError p))"
    by (auto simp: load_model_def Let_def split: sum.splits)
next
  assume p: "state_dict_path module_file n = Inr p" and "path_exists t p"
  then show "(\<exists>m. load_model t module_file n dev = Inr m) \<longleftrightarrow>
          (\<exists>loaded m m'. torch_load t p = Inr loaded \<and> EmoNet t n dev = Inr m
              \<and> load_state_dict t m (strip_module loaded) = Inr m')"
    by (auto simp: load_model_def Let_def split: sum.splits)
qed

theorem load_model_file_check_witness:
  "state_dict_path example_module_file 8 = Inr [''srv'', ''emonet'', ''pretrained'', ''emonet_8.pth'']
   \<and> \<not> path_exists (example_loaders False (Inr [])) [''srv'', ''emonet'', ''pretrained'', ''emonet_8.pth'']
   \<and> load_model (example_loaders False (Inr [])) example_module_file 8 Cpu
        = Inl (FileNotFoundError [''srv'', ''emonet'', ''pretrained'', ''emonet_8.pth''])
   \<and> path_exists (example_loaders True (Inr [(''module.conv1.weight'', 1)]))
        [''srv'', ''emonet'', ''pretrained'', ''emonet_8.pth'']
   \<and> (\<exists>m. load_model (example_loaders True (Inr [(''module.conv1.weight'', 1)]))
              example_module_file 8 Cpu = Inr m)"
proof -
  let ?p = "[''srv'', ''emonet'', ''pretrained'', ''emonet_8.pth'']"
  let ?t = "example_loaders True (Inr [(''module.conv1.weight'', 1)])"
  have p: "state_dict_path example_module_file 8 = Inr ?p"
    by code_simp
  have a: "\<not> path_exists (example_loaders False (Inr [])) ?p"
    by (simp add: example_loaders_def)
  have b: "path_exists ?t ?p"
    by (simp add: example_loaders_def)
  have ok: "\<exists>loaded m m'. torch_load ?t ?p = Inr loaded \<and> EmoNet ?t 8 Cpu = Inr m
              \<and> load_state_dict ?t m (strip_module loaded) = Inr m'"
    by (simp add: example_loaders_def)
  from load_model_file_check [of example_module_file 8 ?p "example_loaders False (Inr [])" Cpu] p a
  have "load_model (example_loaders False (Inr [])) example_module_file 8 Cpu
        = Inl (FileNotFoundError ?p)"
    by blast
  moreover from load_model_file_check [of example_module_file 8 ?p ?t Cpu] p b ok
  have "\<exists>m. load_model ?t example_module_file 8 Cpu = Inr m"
    by blast
  ultimately show ?thesis using p a b by blast
qed

section \<open>The probabilities of a prediction\<close>

text \<open>
  What \<open>predict\<close> itself contributes to the probabilities: one entry per class index
  below \<open>n_classes\<close>, labelled by the table, holding the softmax row in order, and the
  predicted class at the first greatest entry of that row.
\<close>

lemma emotion_probs_dict_Inr:
  "emotion_probs_dict ps idx = Inr d \<Longrightarrow>
     length d = length idx \<and> map snd d = map (\<lambda>i. ps ! i) idx
     \<and> map (\<lambda>kv. Some (fst kv)) d = map emotion_classes idx \<and> (\<forall>i\<in>set idx. i < length ps)"
proof (induction idx arbitrary: d)
  case Nil
  then show ?case by simp
next
  case (Cons i idx)
  from Cons.prems obtain label d' where
    "emotion_classes i = Some label" "i < length ps" "emotion_probs_dict ps idx = Inr d'"
    "d = (label, ps ! i) # d'"
    by (auto split: option.splits if_splits sum.splits)
  with Cons.IH [of d'] show ?case by simp
qed

lemma argmax_from_first_greatest:
  "argmax_from b bv i xs = k \<Longrightarrow>
     (k = b \<and> (\<forall>x\<in>set xs. x \<le> bv))
   \<or> (\<exists>j<length xs. k = i + j \<and> bv < xs ! j \<and> (\<forall>x\<in>set xs. x \<le> xs ! j)
         \<and> (\<forall>j'<j. xs ! j' < xs ! j))"
proof (induction xs arbitrary: b bv i)
  case Nil
  then show ?case by simp
next
  case (Cons x xs)
  show ?case
  proof (cases "bv < x")
    case True
    with Cons.prems have "argmax_from i x (Suc i) xs = k" by simp
    from Cons.IH [OF this] show ?thesis
    proof
      assume "k = i \<and> (\<forall>y\<in>set xs. y \<le> x)"
      with True have "0 < length (x # xs) \<and> k = i + 0 \<and> bv < (x # xs) ! 0
          \<and> (\<forall>y\<in>set (x # xs). y \<le> (x # xs) ! 0) \<and> (\<forall>j'<0. (x # xs) ! j' < (x # xs) ! 0)"
        by simp
      then show ?thesis by blast
    next
      assume "\<exists>j<length xs. k = Suc i + j \<and> x < xs ! j \<and> (\<forall>y\<in>set xs. y \<le> xs ! j)
         \<and> (\<forall>j'<j. xs ! j' < xs ! j)"
      then obtain j where j: "j < length xs" "k = Suc i + j" "x < xs ! j"
        "\<forall>y\<in>set xs. y \<le> xs ! j" "\<forall>j'<j. xs ! j' < xs ! j" by blast
      with True have "Suc j < length (x # xs) \<and> k = i + Suc j \<and> bv < (x # xs) ! Suc j
          \<and> (\<forall>y\<in>set (x # xs). y \<le> (x # xs) ! Suc j)
          \<and> (\<forall>j'<Suc j. (x # xs) ! j' < (x # xs) ! Suc j)"
        by (auto simp: nth_Cons split: nat.splits)
      then show ?thesis by blast
    qed
  next
    case False
    with Cons.prems have "argmax_from b bv (Suc i) xs = k" by simp
    from Cons.IH [OF this] show ?thesis
    proof
      assume "k = b \<and> (\<forall>y\<in>set xs. y \<le> bv)"
      with False show ?thesis by auto
    next
      assume "\<exists>j<length xs. k = Suc i + j \<and> bv < xs ! j \<and> (\<forall>y\<in>set xs. y \<le> xs ! j)
         \<and> (\<forall>j'<j. xs ! j' < xs ! j)"
      then obtain j where j: "j < length xs" "k = Suc i + j" "bv < xs ! j"
        "\<forall>y\<in>set xs. y \<le> xs ! j" "\<forall>j'<j. xs ! j' < xs ! j" by blast
      with False have "Suc j < length (x # xs) \<and> k = i + Suc j \<and> bv < (x # xs) ! Suc j
          \<and> (\<forall>y\<in>set (x # xs). y \<le> (x # xs) ! Suc j)
          \<and> (\<forall>j'<Suc j. (x # xs) ! j' < (x # xs) ! Suc j)"
        by (auto simp: nth_Cons split: nat.splits)
      then show ?thesis by blast
    qed
  qed
qed

lemma argmax_Inr:
  assumes "argmax xs = Inr k"
  shows "k < length xs \<and> (\<forall>j<length xs. xs ! j \<le> xs ! k) \<and> (\<forall>j<k. xs ! j < xs ! k)"
proof -
  from assms obtain x rest where xs: "xs = x # rest" and k: "argmax_from 0 x 1 rest = k"
    by (auto simp: argmax_def split: list.splits)
  from argmax_from_first_greatest [OF k] show ?thesis
  proof
    assume "k = 0 \<and> (\<forall>y\<in>set rest. y \<le> x)"
    then show ?thesis using xs by (auto simp: nth_Cons split: nat.splits)
  next
    assume "\<exists>j<length rest. k = 1 + j \<and> x < rest ! j \<and> (\<forall>y\<in>set rest. y \<le> rest ! j)
         \<and> (\<forall>j'<j. rest ! j' < rest ! j)"
    then show ?thesis using xs by (auto simp: nth_Cons split: nat.splits)
  qed
qed

lemma take_as_map_nth: "n \<le> length ps \<Longrightarrow> map (\<lambda>i. ps ! i) [0..<n] = take n ps"
  by (rule nth_equalityI) simp_all

lemma prediction_probabilities_entries:
  assumes "predict ext self img = Inr r" and "map_of r ''face_detected'' = Some (PBool True)"
  shows "\<exists>probs k ps t out.
           model self t = Inr out \<and> ps = softmax ext (expression out)
         \<and> map_of r ''emotion_probabilities'' = Some (PFloatDict probs)
         \<and> map_of r ''emotion_class'' = Some (PInt (int k))
         \<and> map_of r ''emotion'' = map_option PStr (emotion_classes k)
         \<and> length probs = nat (n_classes self)
         \<and> nat (n_classes self) \<le> length ps
         \<and> map snd probs = take (nat (n_classes self)) ps
         \<and> map (\<lambda>kv. Some (fst kv)) probs = map emotion_classes [0..<nat (n_classes self)]
         \<and> k < length ps \<and> (\<forall>j<length ps. ps ! j \<le> ps ! k) \<and> (\<forall>j<k. ps ! j < ps ! k)"
proof -
  from predict_prediction [OF assms]
  obtain fc bbox where "infer ext self fc bbox = Inr r" by blast
  from infer_Inr [OF this] obtain t out k label probs where
    m: "model self t = Inr out" and
    am: "argmax (softmax ext (expression out)) = Inr k" and
    d: "emotion_probs_dict (softmax ext (expression out)) [0..<nat (n_classes self)] = Inr probs" and
    l: "emotion_classes k = Some label" and
    r: "r = [(''emotion'', PStr label), (''emotion_class'', PInt (int k)),
                (''valence'', PFloat (clamp (- 1) 1 (valence out))),
                (''arousal'', PFloat (clamp (- 1) 1 (arousal out))),
                (''emotion_probabilities'', PFloatDict probs),
                (''face_detected'', PBool True), (''face_bbox'', PIntList bbox)]"
    by blast
  define ps where "ps = softmax ext (expression out)"
  from emotion_probs_dict_Inr [OF d] have
    len: "length probs = nat (n_classes self)" and
    vals: "map snd probs = map (\<lambda>i. ps ! i) [0..<nat (n_classes self)]" and
    keys: "map (\<lambda>kv. Some (fst kv)) probs = map emotion_classes [0..<nat (n_classes self)]" and
    inr: "\<forall>i\<in>set [0..<nat (n_classes self)]. i < length ps"
    by (simp_all add: ps_def)
  have le: "nat (n_classes self) \<le> length ps"
  proof (cases "nat (n_classes self)")
    case 0
    then show ?thesis by simp
  next
    case (Suc n)
    with inr have "n < length ps" by simp
    with Suc show ?thesis by simp
  qed
  from vals take_as_map_nth [OF le] have v: "map snd probs = take (nat (n_classes self)) ps"
    by simp
  from argmax_Inr [OF am] have
    a: "k < length ps \<and> (\<forall>j<length ps. ps ! j \<le> ps ! k) \<and> (\<forall>j<k. ps ! j < ps ! k)"
    by (simp add: ps_def)
  from r l have f: "map_of r ''emotion_probabilities'' = Some (PFloatDict probs)"
    "map_of r ''emotion_class'' = Some (PInt (int k))"
    "map_of r ''emotion'' = map_option PStr (emotion_classes k)"
    by simp_all
  from m ps_def f len le v keys a show ?thesis by blast
qed

end
